theory Spec2Isabelle
  imports Main
begin

section \<open>Data model\<close>

text \<open>
  Go's \<open>error\<close> interface. The program inspects one dynamic type,
  \<open>*kubeErrors.StatusError\<close> (with its HTTP status code), builds plain errors with
  \<open>errors.New\<close> and wraps errors with \<open>fmt.Errorf("...%w", err)\<close>. A nil error is
  \<open>None\<close> of \<open>error option\<close>.
\<close>

datatype error =
    StatusError int string
  | ErrorString string
  | WrapError string error

text \<open>
  The Kubernetes objects. The program reads only the name and the namespace of an object
  and, for a Deployment, \<open>Status.UnavailableReplicas\<close>; the rest of a document is opaque
  to it and is kept as a payload. \<open>ResourceVersion\<close> stands for the metadata the server
  assigns, which a fetched document carries.
\<close>

record object_meta =
  MetaName :: string
  MetaNamespace :: string
  ResourceVersion :: string

record manifest =
  ObjectMeta :: object_meta
  Payload :: string

record deployment = manifest +
  UnavailableReplicas :: int

text \<open>
  \<open>runtime.Object\<close>: the interface value that the decoder returns and that a watch event
  carries. \<open>OtherObject\<close> is any object of a type the program has no case for (a Pod, a
  \<open>metav1.Status\<close>), \<open>NilObject\<close> the nil interface value.
\<close>

datatype runtime_object =
    Deployment deployment
  | ConfigMap manifest
  | Service manifest
  | Ingress manifest
  | CronJob manifest
  | OtherObject string
  | NilObject

record watch_event =
  EventType :: string
  EventObject :: runtime_object

text \<open>
  One outcome of the \<open>select\<close> statement of the settlement loop: the timer's channel
  delivered, or the watcher's result channel delivered an event.
\<close>

datatype select_case = TimerC | ResultChan watch_event

section \<open>The control plane\<close>

text \<open>
  Every request sent to the control plane is recorded, in order. \<open>StopCall\<close> is
  \<open>watch.Interface.Stop\<close>, the one way to release a subscription.
\<close>

datatype resource = Deployments | ConfigMaps | Services | Ingresses | CronJobs

datatype call =
    GetCall resource string string
  | CreateCall resource string runtime_object
  | UpdateCall resource string runtime_object
  | WatchCall resource string string
  | StopCall

record state =
  Calls :: "call list"
  OpenWatches :: nat
  EventsReceived :: nat

text \<open>
  The typed client of one resource kind, as client-go offers it. The control plane is
  arbitrary: each answer may depend on the requests made so far and on the arguments.
  \<open>Create\<close> and \<open>Update\<close> also return the stored object, which every caller in the
  program discards (\<open>_, err = ...\<close>), so only the error is kept.
\<close>

record 'a resource_client =
  Get :: "call list \<Rightarrow> string \<Rightarrow> string \<Rightarrow> error + 'a"
  Create :: "call list \<Rightarrow> string \<Rightarrow> 'a \<Rightarrow> error option"
  Update :: "call list \<Rightarrow> string \<Rightarrow> 'a \<Rightarrow> error option"

text \<open>
  \<open>Watch\<close> on Deployments answers with an error or with a subscription. A subscription
  is represented by what the settlement loop will see of it: given the number of seconds
  of the timer it is raced against, the sequence of outcomes of the loop's \<open>select\<close>
  statement, which interleaves the events of the result channel with the firing of the
  timer.
\<close>

record clientset =
  AppsV1_Deployments :: "deployment resource_client"
  AppsV1_Deployments_Watch ::
    "call list \<Rightarrow> string \<Rightarrow> string \<Rightarrow> error + (int \<Rightarrow> select_case list)"
  CoreV1_ConfigMaps :: "manifest resource_client"
  CoreV1_Services :: "manifest resource_client"
  ExtensionsV1beta1_Ingresses :: "manifest resource_client"
  BatchV1_CronJobs :: "manifest resource_client"

definition record_call :: "call \<Rightarrow> state \<Rightarrow> state" where
  "record_call c s = s\<lparr>Calls := Calls s @ [c]\<rparr>"

section \<open>Existence probes\<close>

text \<open>
  The test every probe applies to a lookup error:
  \<open>statusError, ok := err.(*kubeErrors.StatusError)\<close> and then
  \<open>ok && statusError.Status().Code == http.StatusNotFound\<close>.
\<close>

definition StatusNotFound :: int where
  "StatusNotFound = 404"

fun isStatusNotFound :: "error \<Rightarrow> bool" where
  "isStatusNotFound (StatusError code msg) = (code = StatusNotFound)"
| "isStatusNotFound (ErrorString msg) = False"
| "isStatusNotFound (WrapError msg err) = False"

definition deploymentExists ::
  "clientset \<Rightarrow> string \<Rightarrow> string \<Rightarrow> state \<Rightarrow> (bool \<times> error option) \<times> state" where
  "deploymentExists clientset namespace name s =
     (let s' = record_call (GetCall Deployments namespace name) s in
      case Get (AppsV1_Deployments clientset) (Calls s) namespace name of
        Inl err \<Rightarrow>
          if isStatusNotFound err then ((False, None), s')
          else ((False, Some err), s')
      | Inr d \<Rightarrow> ((True, None), s'))"

definition getService ::
  "clientset \<Rightarrow> string \<Rightarrow> string \<Rightarrow> state
     \<Rightarrow> (manifest option \<times> bool \<times> error option) \<times> state" where
  "getService clientset namespace name s =
     (let s' = record_call (GetCall Services namespace name) s in
      case Get (CoreV1_Services clientset) (Calls s) namespace name of
        Inl err \<Rightarrow>
          if isStatusNotFound err then ((None, False, None), s')
          else ((None, False, Some err), s')
      | Inr service \<Rightarrow> ((Some service, True, None), s'))"

definition configMapExists ::
  "clientset \<Rightarrow> string \<Rightarrow> string \<Rightarrow> state \<Rightarrow> (bool \<times> error option) \<times> state" where
  "configMapExists clientset namespace name s =
     (let s' = record_call (GetCall ConfigMaps namespace name) s in
      case Get (CoreV1_ConfigMaps clientset) (Calls s) namespace name of
        Inl err \<Rightarrow>
          if isStatusNotFound err then ((False, None), s')
          else ((False, Some err), s')
      | Inr c \<Rightarrow> ((True, None), s'))"

definition getIngress ::
  "clientset \<Rightarrow> string \<Rightarrow> string \<Rightarrow> state
     \<Rightarrow> (manifest option \<times> bool \<times> error option) \<times> state" where
  "getIngress clientset namespace name s =
     (let s' = record_call (GetCall Ingresses namespace name) s in
      case Get (ExtensionsV1beta1_Ingresses clientset) (Calls s) namespace name of
        Inl err \<Rightarrow>
          if isStatusNotFound err then ((None, False, None), s')
          else ((None, False, Some err), s')
      | Inr ingress \<Rightarrow> ((Some ingress, True, None), s'))"

definition getCronJob ::
  "clientset \<Rightarrow> string \<Rightarrow> string \<Rightarrow> state
     \<Rightarrow> (manifest option \<times> bool \<times> error option) \<times> state" where
  "getCronJob clientset namespace name s =
     (let s' = record_call (GetCall CronJobs namespace name) s in
      case Get (BatchV1_CronJobs clientset) (Calls s) namespace name of
        Inl err \<Rightarrow>
          if isStatusNotFound err then ((None, False, None), s')
          else ((None, False, Some err), s')
      | Inr cronjob \<Rightarrow> ((Some cronjob, True, None), s'))"

section \<open>Reconcilers\<close>

definition CreateOrUpdateDeployment ::
  "clientset \<Rightarrow> string \<Rightarrow> deployment \<Rightarrow> state \<Rightarrow> error option \<times> state" where
  "CreateOrUpdateDeployment clientset namespace deployment s =
     (case deploymentExists clientset namespace (MetaName (ObjectMeta deployment)) s of
        ((exists, Some err), s1) \<Rightarrow> (Some err, s1)
      | ((exists, None), s1) \<Rightarrow>
          if exists then
            (Update (AppsV1_Deployments clientset) (Calls s1) namespace deployment,
             record_call (UpdateCall Deployments namespace (Deployment deployment)) s1)
          else
            (Create (AppsV1_Deployments clientset) (Calls s1) namespace deployment,
             record_call (CreateCall Deployments namespace (Deployment deployment)) s1))"

text \<open>
  \<open>ApplyService\<close> updates with \<open>existingService\<close>, the pointer \<open>getService\<close> returned. It
  is non-nil whenever \<open>exists\<close> is true (lemma \<open>getService_exists_live\<close> below), so the
  branch for a nil pointer is never taken; there the client library would dereference
  nil, and the model sends nothing.
\<close>

definition ApplyService ::
  "clientset \<Rightarrow> string \<Rightarrow> manifest \<Rightarrow> state \<Rightarrow> error option \<times> state" where
  "ApplyService clientset namespace service s =
     (case getService clientset namespace (MetaName (ObjectMeta service)) s of
        ((existingService, exists, Some err), s1) \<Rightarrow> (Some err, s1)
      | ((existingService, exists, None), s1) \<Rightarrow>
          if exists then
            (case existingService of
               Some live \<Rightarrow>
                 (Update (CoreV1_Services clientset) (Calls s1) namespace live,
                  record_call (UpdateCall Services namespace (Service live)) s1)
             | None \<Rightarrow>
                 (Some (ErrorString ''nil pointer dereference''), s1))
          else
            (Create (CoreV1_Services clientset) (Calls s1) namespace service,
             record_call (CreateCall Services namespace (Service service)) s1))"

definition ApplyConfigMap ::
  "clientset \<Rightarrow> string \<Rightarrow> manifest \<Rightarrow> state \<Rightarrow> error option \<times> state" where
  "ApplyConfigMap clientset namespace configMap s =
     (case configMapExists clientset namespace (MetaName (ObjectMeta configMap)) s of
        ((exists, Some err), s1) \<Rightarrow> (Some err, s1)
      | ((exists, None), s1) \<Rightarrow>
          if exists then
            (Update (CoreV1_ConfigMaps clientset) (Calls s1) namespace configMap,
             record_call (UpdateCall ConfigMaps namespace (ConfigMap configMap)) s1)
          else
            (Create (CoreV1_ConfigMaps clientset) (Calls s1) namespace configMap,
             record_call (CreateCall ConfigMaps namespace (ConfigMap configMap)) s1))"

definition ApplyIngress ::
  "clientset \<Rightarrow> string \<Rightarrow> manifest \<Rightarrow> state \<Rightarrow> error option \<times> state" where
  "ApplyIngress clientset namespace ingress s =
     (case getIngress clientset namespace (MetaName (ObjectMeta ingress)) s of
        ((live, exists, Some err), s1) \<Rightarrow> (Some err, s1)
      | ((live, exists, None), s1) \<Rightarrow>
          if \<not> exists then
            (Create (ExtensionsV1beta1_Ingresses clientset) (Calls s1) namespace ingress,
             record_call (CreateCall Ingresses namespace (Ingress ingress)) s1)
          else
            (Update (ExtensionsV1beta1_Ingresses clientset) (Calls s1) namespace ingress,
             record_call (UpdateCall Ingresses namespace (Ingress ingress)) s1))"

definition ApplyCronJob ::
  "clientset \<Rightarrow> string \<Rightarrow> manifest \<Rightarrow> state \<Rightarrow> error option \<times> state" where
  "ApplyCronJob clientset namespace cronjob s =
     (case getCronJob clientset namespace (MetaName (ObjectMeta cronjob)) s of
        ((live, exists, Some err), s1) \<Rightarrow> (Some err, s1)
      | ((live, exists, None), s1) \<Rightarrow>
          if \<not> exists then
            (Create (BatchV1_CronJobs clientset) (Calls s1) namespace cronjob,
             record_call (CreateCall CronJobs namespace (CronJob cronjob)) s1)
          else
            (Update (BatchV1_CronJobs clientset) (Calls s1) namespace cronjob,
             record_call (UpdateCall CronJobs namespace (CronJob cronjob)) s1))"

section \<open>Settlement watcher\<close>

text \<open>
  What a function that may crash or wait forever does: it returns, it panics, or it
  blocks (the \<open>select\<close> statement waits and nothing more is delivered).
\<close>

datatype 'a outcome = Return 'a | Panic string | Blocked

text \<open>
  The two status labels. Go strings are byte sequences; the labels start with the UTF-8
  bytes of U+1F4E6 and of U+26D4 U+FE0F.
\<close>

definition stateUpdated :: string where
  "stateUpdated = [CHR 0xF0, CHR 0x9F, CHR 0x93, CHR 0xA6] @ '' Updated''"

definition stateFailed :: string where
  "stateFailed = [CHR 0xE2, CHR 0x9B, CHR 0x94, CHR 0xEF, CHR 0xB8, CHR 0x8F] @ '' Failed''"

text \<open>
  The \<open>for { select { ... } }\<close> loop, run on the outcomes of its \<open>select\<close> statement.
  \<open>event.Object.(*appV1.Deployment)\<close> is the one-result form of a type assertion, which
  panics when the object is of any other type or is nil.
\<close>

fun settle_loop :: "select_case list \<Rightarrow> state \<Rightarrow> (string \<times> error option) outcome \<times> state" where
  "settle_loop [] s = (Blocked, s)"
| "settle_loop (TimerC # rest) s =
     (Return (stateFailed,
        Some (ErrorString ''deployment watcher timed out. Something is wrong'')), s)"
| "settle_loop (ResultChan event # rest) s =
     (let s' = s\<lparr>EventsReceived := EventsReceived s + 1\<rparr> in
      case EventObject event of
        Deployment deployment \<Rightarrow>
          if UnavailableReplicas deployment = 0 then (Return (stateUpdated, None), s')
          else settle_loop rest s'
      | other \<Rightarrow> (Panic ''interface conversion: interface {} is not *v1.Deployment'', s'))"

text \<open>
  A successful \<open>Watch\<close> opens a subscription, counted in \<open>OpenWatches\<close>. The function has
  no call of \<open>watcher.Stop()\<close>, deferred or not, so nothing here lowers the count or
  records a \<open>StopCall\<close>. The timer's duration is \<open>timeoutInSeconds\<close> seconds; when it fires
  relative to the events is decided by the environment, which is why the subscription's
  sequence of \<open>select\<close> outcomes is a function of it.
\<close>

definition waitUntilDeploymentSettled ::
  "clientset \<Rightarrow> string \<Rightarrow> string \<Rightarrow> int \<Rightarrow> state
     \<Rightarrow> (string \<times> error option) outcome \<times> state" where
  "waitUntilDeploymentSettled clientset namespace name timeoutInSeconds s =
     (let fieldSelector = ''metadata.name'' @ ''='' @ name;
          s1 = record_call (WatchCall Deployments namespace fieldSelector) s in
      case AppsV1_Deployments_Watch clientset (Calls s) namespace fieldSelector of
        Inl err \<Rightarrow> (Return (stateFailed, Some (WrapError ''watch deployment; '' err)), s1)
      | Inr watcher \<Rightarrow>
          (let s2 = s1\<lparr>OpenWatches := OpenWatches s1 + 1\<rparr>;
               s3 = record_call (GetCall Deployments namespace name) s2 in
           (case Get (AppsV1_Deployments clientset) (Calls s2) namespace name of
              Inl err \<Rightarrow>
                (Return (stateFailed, Some (WrapError ''get deployment; '' err)), s3)
            | Inr liveDeployment \<Rightarrow>
                if UnavailableReplicas liveDeployment = 0
                then (Return ([CHR 0xF0, CHR 0x9F, CHR 0x93, CHR 0xA6] @ '' Updated'', None), s3)
                else settle_loop (watcher timeoutInSeconds) s3)))"

section \<open>The plugin\<close>

record kube_config =
  Ca :: string
  Server :: string
  Token :: string
  Namespace :: string
  InsecureSkipTLSVerify :: bool

record plugin =
  Template :: string
  KubeConfig :: kube_config

text \<open>
  What \<open>Exec\<close> and \<open>handleYamlConfig\<close> call outside this program: \<open>ioutil.ReadFile\<close>;
  \<open>raymond.Render\<close>, applied to the template and to the variables collected from
  \<open>os.Environ()\<close> (the variables only reach the renderer, so the field stands for both
  steps); \<open>CreateKubeClient\<close>; the universal deserializer's \<open>Decode\<close>; and
  \<open>strings.TrimSpace\<close>, which trims Unicode white space. They are parameters: every
  theorem below holds whatever they compute. Log output is not modelled.
\<close>

record environment =
  ReadFile :: "string \<Rightarrow> error + string"
  Render :: "string \<Rightarrow> error + string"
  CreateKubeClient :: "plugin \<Rightarrow> error + clientset"
  Decode :: "string \<Rightarrow> error + runtime_object"
  TrimSpace :: "string \<Rightarrow> string"

text \<open>
  \<open>strings.Split(s, sep)\<close> for a non-empty separator: the pieces of \<open>s\<close> between the
  occurrences of \<open>sep\<close>, found from the left and not overlapping. \<open>cur\<close> is the piece
  under construction. (The program's only separator is \<open>---\<close>; for an empty separator Go
  splits after each UTF-8 sequence, which is not modelled.)
\<close>

function Split_from :: "string \<Rightarrow> string \<Rightarrow> string \<Rightarrow> string list" where
  "Split_from sep cur s =
     (if s = [] then [cur]
      else if sep \<noteq> [] \<and> take (length sep) s = sep
      then cur # Split_from sep [] (drop (length sep) s)
      else Split_from sep (cur @ [hd s]) (tl s))"
  by pat_completeness auto
termination
  by (relation "measure (\<lambda>(sep, cur, s). length s)") auto

definition Split :: "string \<Rightarrow> string \<Rightarrow> string list" where
  "Split s sep = Split_from sep [] s"

text \<open>
  \<open>handleYamlConfig\<close> has a value receiver, \<open>func (p Plugin)\<close>: it works on its own copy
  of the plugin, so its assignment to \<open>p.KubeConfig.Namespace\<close> changes that copy only.
  \<open>resolveNamespace\<close> is the statement
  \<open>if p.KubeConfig.Namespace == "" { p.KubeConfig.Namespace = o.Namespace }\<close>,
  which all five cases of the type switch start with.
\<close>

definition resolveNamespace :: "plugin \<Rightarrow> 'a manifest_scheme \<Rightarrow> plugin" where
  "resolveNamespace p o' =
     (if Namespace (KubeConfig p) = []
      then p\<lparr>KubeConfig := (KubeConfig p)\<lparr>Namespace := MetaNamespace (ObjectMeta o')\<rparr>\<rparr>
      else p)"

definition unsupported :: string where
  "unsupported = [CHR 0xE2, CHR 0x9B, CHR 0x94, CHR 0xEF, CHR 0xB8, CHR 0x8F]
     @ '' This plugin doesn'' @ [CHR 0x27] @ ''t support that resource type''"

definition handleYamlConfig ::
  "environment \<Rightarrow> plugin \<Rightarrow> string \<Rightarrow> clientset \<Rightarrow> state \<Rightarrow> error option outcome \<times> state" where
  "handleYamlConfig env p templateYaml clientset s =
     (case Decode env templateYaml of
        Inl err \<Rightarrow> (Return (Some err), s)
      | Inr kubernetesObject \<Rightarrow>
          (case kubernetesObject of
             Deployment o' \<Rightarrow>
               (let p1 = resolveNamespace p o' in
                (case CreateOrUpdateDeployment clientset (Namespace (KubeConfig p1)) o' s of
                   (Some err, s1) \<Rightarrow> (Return (Some err), s1)
                 | (None, s1) \<Rightarrow>
                     (case waitUntilDeploymentSettled clientset (Namespace (KubeConfig p1))
                             (MetaName (ObjectMeta o')) 120 s1 of
                        (Return (state, watchErr), s2) \<Rightarrow> (Return watchErr, s2)
                      | (Panic msg, s2) \<Rightarrow> (Panic msg, s2)
                      | (Blocked, s2) \<Rightarrow> (Blocked, s2))))
           | ConfigMap o' \<Rightarrow>
               (let p1 = resolveNamespace p o';
                    (err, s1) = ApplyConfigMap clientset (Namespace (KubeConfig p1)) o' s
                in (Return err, s1))
           | Service o' \<Rightarrow>
               (let p1 = resolveNamespace p o';
                    (err, s1) = ApplyService clientset (Namespace (KubeConfig p1)) o' s
                in (Return err, s1))
           | Ingress o' \<Rightarrow>
               (let p1 = resolveNamespace p o';
                    (err, s1) = ApplyIngress clientset (Namespace (KubeConfig p1)) o' s
                in (Return err, s1))
           | CronJob o' \<Rightarrow>
               (let p1 = resolveNamespace p o';
                    (err, s1) = ApplyCronJob clientset (Namespace (KubeConfig p1)) o' s
                in (Return err, s1))
           | OtherObject ty \<Rightarrow> (Return (Some (ErrorString unsupported)), s)
           | NilObject \<Rightarrow> (Return (Some (ErrorString unsupported)), s)))"

text \<open>
  The loop of \<open>Exec\<close> over the parts of the rendered template. Every iteration calls
  \<open>handleYamlConfig\<close> on the same \<open>p\<close>, the receiver of \<open>Exec\<close>.
\<close>

fun Exec_loop ::
  "environment \<Rightarrow> plugin \<Rightarrow> clientset \<Rightarrow> string list \<Rightarrow> state \<Rightarrow> error option outcome \<times> state" where
  "Exec_loop env p clientset [] s = (Return None, s)"
| "Exec_loop env p clientset (part # parts) s =
     (let templateYamlPart = TrimSpace env part in
      if length templateYamlPart = 0 then Exec_loop env p clientset parts s
      else (case handleYamlConfig env p templateYamlPart clientset s of
              (Return None, s1) \<Rightarrow> Exec_loop env p clientset parts s1
            | (Return (Some err), s1) \<Rightarrow> (Return (Some err), s1)
            | (Panic msg, s1) \<Rightarrow> (Panic msg, s1)
            | (Blocked, s1) \<Rightarrow> (Blocked, s1)))"

definition Exec :: "environment \<Rightarrow> plugin \<Rightarrow> state \<Rightarrow> error option outcome \<times> state" where
  "Exec env p s =
     (if Server (KubeConfig p) = [] then
        (Return (Some (ErrorString ''PLUGIN_SERVER is not defined'')), s)
      else if Token (KubeConfig p) = [] then
        (Return (Some (ErrorString ''PLUGIN_TOKEN is not defined'')), s)
      else if Ca (KubeConfig p) = [] then
        (Return (Some (ErrorString ''PLUGIN_CA is not defined'')), s)
      else if Template p = [] then
        (Return (Some (ErrorString ''PLUGIN_TEMPLATE, or template must be defined'')), s)
      else
        (case ReadFile env (Template p) of
           Inl err \<Rightarrow> (Return (Some err), s)
         | Inr raw \<Rightarrow>
             (case Render env raw of
                Inl err \<Rightarrow> (Return (Some err), s)
              | Inr templateYaml \<Rightarrow>
                  (case CreateKubeClient env p of
                     Inl err \<Rightarrow> (Return (Some err), s)
                   | Inr clientset \<Rightarrow>
                       Exec_loop env p clientset (Split templateYaml ''---'') s))))"

section \<open>Vocabulary of the properties\<close>

text \<open>Counting the write requests in a log of requests.\<close>

fun isCreate :: "call \<Rightarrow> bool" where
  "isCreate (CreateCall k ns obj) = True"
| "isCreate c = False"

fun isUpdate :: "call \<Rightarrow> bool" where
  "isUpdate (UpdateCall k ns obj) = True"
| "isUpdate c = False"

definition creates :: "call list \<Rightarrow> nat" where
  "creates cs = length (filter isCreate cs)"

definition updates :: "call list \<Rightarrow> nat" where
  "updates cs = length (filter isUpdate cs)"

definition one_create :: "state \<Rightarrow> state \<Rightarrow> bool" where
  "one_create s s' \<longleftrightarrow>
     creates (Calls s') = creates (Calls s) + 1 \<and> updates (Calls s') = updates (Calls s)"

definition one_update :: "state \<Rightarrow> state \<Rightarrow> bool" where
  "one_update s s' \<longleftrightarrow>
     updates (Calls s') = updates (Calls s) + 1 \<and> creates (Calls s') = creates (Calls s)"

definition at_most_one_write :: "state \<Rightarrow> state \<Rightarrow> bool" where
  "at_most_one_write s s' \<longleftrightarrow>
     creates (Calls s') + updates (Calls s') \<le> creates (Calls s) + updates (Calls s) + 1"

definition probe_absent :: "bool \<times> error option \<Rightarrow> bool" where
  "probe_absent r \<longleftrightarrow> \<not> fst r \<and> snd r = None"

definition probe_present :: "bool \<times> error option \<Rightarrow> bool" where
  "probe_present r \<longleftrightarrow> fst r \<and> snd r = None"

text \<open>
  What a watch event tells the settlement loop: \<open>reports_unavailable\<close> holds of an event
  whose object is a Deployment with unavailable replicas; \<open>carries_deployment\<close> holds of a
  \<open>select\<close> outcome unless it is an event whose object is not a Deployment.
\<close>

definition reports_unavailable :: "watch_event \<Rightarrow> bool" where
  "reports_unavailable e \<longleftrightarrow>
     (case EventObject e of Deployment d \<Rightarrow> UnavailableReplicas d \<noteq> 0 | other \<Rightarrow> False)"

definition carries_deployment :: "select_case \<Rightarrow> bool" where
  "carries_deployment c \<longleftrightarrow>
     (case c of
        TimerC \<Rightarrow> True
      | ResultChan e \<Rightarrow> (case EventObject e of Deployment d \<Rightarrow> True | other \<Rightarrow> False))"

fun returned_label :: "(string \<times> error option) outcome \<Rightarrow> string option" where
  "returned_label (Return (label, err)) = Some label"
| "returned_label (Panic msg) = None"
| "returned_label Blocked = None"

text \<open>
  The namespace a request is sent to, the namespace a decoded document declares, and
  \<open>issued_in ns s s'\<close>: the log of \<open>s'\<close> extends the log of \<open>s\<close>, and every request added
  went to the namespace \<open>ns\<close>.
\<close>

fun call_namespace :: "call \<Rightarrow> string option" where
  "call_namespace (GetCall k ns name) = Some ns"
| "call_namespace (CreateCall k ns obj) = Some ns"
| "call_namespace (UpdateCall k ns obj) = Some ns"
| "call_namespace (WatchCall k ns selector) = Some ns"
| "call_namespace StopCall = None"

fun declared_namespace :: "runtime_object \<Rightarrow> string option" where
  "declared_namespace (Deployment d) = Some (MetaNamespace (ObjectMeta d))"
| "declared_namespace (ConfigMap m) = Some (MetaNamespace (ObjectMeta m))"
| "declared_namespace (Service m) = Some (MetaNamespace (ObjectMeta m))"
| "declared_namespace (Ingress m) = Some (MetaNamespace (ObjectMeta m))"
| "declared_namespace (CronJob m) = Some (MetaNamespace (ObjectMeta m))"
| "declared_namespace (OtherObject ty) = None"
| "declared_namespace NilObject = None"

definition issued_in :: "string \<Rightarrow> state \<Rightarrow> state \<Rightarrow> bool" where
  "issued_in ns s s' \<longleftrightarrow>
     take (length (Calls s)) (Calls s') = Calls s
     \<and> list_all (\<lambda>c. call_namespace c = Some ns) (drop (length (Calls s)) (Calls s'))"


section \<open>Example clusters, documents and runs\<close>

text \<open>
  Concrete control planes and inputs on which the theorems below are instantiated: a
  cluster that holds nothing, one that holds every resource asked for, one that refuses
  every request, one whose Deployment is being rolled out (with a given number of
  unavailable replicas and a given sequence of \<open>select\<close> outcomes), one whose Deployment
  cannot be read, and one that rejects the creation of Services.
\<close>

definition initial_state :: state where
  "initial_state = \<lparr>Calls = [], OpenWatches = 0, EventsReceived = 0\<rparr>"

definition absent_client :: "'a resource_client" where
  "absent_client =
     \<lparr>Get = (\<lambda>history ns name. Inl (StatusError 404 ''not found'')),
      Create = (\<lambda>history ns obj. None),
      Update = (\<lambda>history ns obj. None)\<rparr>"

definition present_client :: "'a \<Rightarrow> 'a resource_client" where
  "present_client live =
     \<lparr>Get = (\<lambda>history ns name. Inr live),
      Create = (\<lambda>history ns obj. Some (StatusError 409 ''already exists'')),
      Update = (\<lambda>history ns obj. None)\<rparr>"

definition failing_client :: "'a resource_client" where
  "failing_client =
     \<lparr>Get = (\<lambda>history ns name. Inl (StatusError 403 ''forbidden'')),
      Create = (\<lambda>history ns obj. Some (StatusError 403 ''forbidden'')),
      Update = (\<lambda>history ns obj. Some (StatusError 403 ''forbidden''))\<rparr>"

definition doc :: "string \<Rightarrow> string \<Rightarrow> string \<Rightarrow> manifest" where
  "doc name ns version =
     \<lparr>ObjectMeta = \<lparr>MetaName = name, MetaNamespace = ns, ResourceVersion = version\<rparr>,
      Payload = ''spec''\<rparr>"

definition deployment_doc :: "string \<Rightarrow> string \<Rightarrow> string \<Rightarrow> int \<Rightarrow> deployment" where
  "deployment_doc name ns version unavailable =
     \<lparr>ObjectMeta = \<lparr>MetaName = name, MetaNamespace = ns, ResourceVersion = version\<rparr>,
      Payload = ''spec'', UnavailableReplicas = unavailable\<rparr>"

definition empty_cluster :: clientset where
  "empty_cluster =
     \<lparr>AppsV1_Deployments = absent_client,
      AppsV1_Deployments_Watch = (\<lambda>history ns selector. Inr (\<lambda>seconds. [TimerC])),
      CoreV1_ConfigMaps = absent_client,
      CoreV1_Services = absent_client,
      ExtensionsV1beta1_Ingresses = absent_client,
      BatchV1_CronJobs = absent_client\<rparr>"

definition live_cluster :: clientset where
  "live_cluster =
     \<lparr>AppsV1_Deployments = present_client (deployment_doc ''web'' ''default'' ''41'' 0),
      AppsV1_Deployments_Watch = (\<lambda>history ns selector. Inr (\<lambda>seconds. [TimerC])),
      CoreV1_ConfigMaps = present_client (doc ''web'' ''default'' ''42''),
      CoreV1_Services = present_client (doc ''web'' ''default'' ''43''),
      ExtensionsV1beta1_Ingresses = present_client (doc ''web'' ''default'' ''44''),
      BatchV1_CronJobs = present_client (doc ''web'' ''default'' ''45'')\<rparr>"

definition broken_cluster :: clientset where
  "broken_cluster =
     \<lparr>AppsV1_Deployments = failing_client,
      AppsV1_Deployments_Watch = (\<lambda>history ns selector. Inl (StatusError 403 ''forbidden'')),
      CoreV1_ConfigMaps = failing_client,
      CoreV1_Services = failing_client,
      ExtensionsV1beta1_Ingresses = failing_client,
      BatchV1_CronJobs = failing_client\<rparr>"

definition deployment_event :: "int \<Rightarrow> watch_event" where
  "deployment_event unavailable =
     \<lparr>EventType = ''MODIFIED'',
      EventObject = Deployment (deployment_doc ''web'' ''default'' ''41'' unavailable)\<rparr>"

definition closed_channel_event :: watch_event where
  "closed_channel_event = \<lparr>EventType = [], EventObject = NilObject\<rparr>"

definition rolling_cluster :: "int \<Rightarrow> select_case list \<Rightarrow> clientset" where
  "rolling_cluster unavailable selects =
     \<lparr>AppsV1_Deployments = present_client (deployment_doc ''web'' ''default'' ''41'' unavailable),
      AppsV1_Deployments_Watch = (\<lambda>history ns selector. Inr (\<lambda>seconds. selects)),
      CoreV1_ConfigMaps = absent_client,
      CoreV1_Services = absent_client,
      ExtensionsV1beta1_Ingresses = absent_client,
      BatchV1_CronJobs = absent_client\<rparr>"

definition unreadable_cluster :: clientset where
  "unreadable_cluster =
     \<lparr>AppsV1_Deployments = failing_client,
      AppsV1_Deployments_Watch = (\<lambda>history ns selector. Inr (\<lambda>seconds. [TimerC])),
      CoreV1_ConfigMaps = absent_client,
      CoreV1_Services = absent_client,
      ExtensionsV1beta1_Ingresses = absent_client,
      BatchV1_CronJobs = absent_client\<rparr>"

text \<open>
  A template of three documents, an environment that reads and renders it unchanged, trims
  ASCII white space and decodes the three documents, and a plugin configuration with a
  given namespace override.
\<close>

definition is_space :: "char \<Rightarrow> bool" where
  "is_space c \<longleftrightarrow> c \<in> set [CHR '' '', CHR 0x09, CHR 0x0A, CHR 0x0B, CHR 0x0C, CHR 0x0D]"

definition trim_ascii :: "string \<Rightarrow> string" where
  "trim_ascii s = rev (dropWhile is_space (rev (dropWhile is_space s)))"

definition toy_decode :: "string \<Rightarrow> error + runtime_object" where
  "toy_decode s =
     (if s = ''configmap one'' then Inr (ConfigMap (doc ''one'' ''a'' []))
      else if s = ''service two'' then Inr (Service (doc ''two'' ''b'' []))
      else if s = ''configmap three'' then Inr (ConfigMap (doc ''three'' ''c'' []))
      else Inl (ErrorString ''no kind registered''))"

definition example_environment :: "clientset \<Rightarrow> environment" where
  "example_environment cluster =
     \<lparr>ReadFile = (\<lambda>path. Inr ''configmap one --- service two --- configmap three''),
      Render = (\<lambda>raw. Inr raw),
      CreateKubeClient = (\<lambda>p. Inr cluster),
      Decode = toy_decode,
      TrimSpace = trim_ascii\<rparr>"

definition example_plugin :: "string \<Rightarrow> plugin" where
  "example_plugin ns =
     \<lparr>Template = ''deployment.yaml'',
      KubeConfig = \<lparr>Ca = ''ca'', Server = ''https://cluster'', Token = ''token'',
                    Namespace = ns, InsecureSkipTLSVerify = False\<rparr>\<rparr>"





section \<open>Unfolding rules\<close>

lemmas count_defs = one_create_def one_update_def at_most_one_write_def creates_def updates_def
  record_call_def probe_absent_def probe_present_def

lemmas reconcile_defs = CreateOrUpdateDeployment_def deploymentExists_def ApplyConfigMap_def
  configMapExists_def ApplyService_def getService_def ApplyIngress_def getIngress_def
  ApplyCronJob_def getCronJob_def

lemmas fixture_defs = initial_state_def absent_client_def present_client_def
  failing_client_def doc_def deployment_doc_def empty_cluster_def live_cluster_def
  broken_cluster_def

lemmas watch_fixture_defs = deployment_event_def closed_channel_event_def rolling_cluster_def
  unreadable_cluster_def

lemmas run_defs = waitUntilDeploymentSettled_def record_call_def Let_def stateUpdated_def
  stateFailed_def fixture_defs watch_fixture_defs

section \<open>Existence probes and reconcilers\<close>

text \<open>
  When \<open>getService\<close> reports that the Service exists, it also returns the fetched
  document, so \<open>ApplyService\<close> never updates with a nil pointer.
\<close>

lemma getService_exists_live:
  "getService cs ns name s = ((existingService, True, err), s1) \<Longrightarrow> existingService \<noteq> None"
  by (auto simp: getService_def Let_def split: sum.splits if_splits)

lemma CreateOrUpdateDeployment_writes:
  "(probe_absent (fst (deploymentExists cs ns (MetaName (ObjectMeta d)) s))
      \<longrightarrow> one_create s (snd (CreateOrUpdateDeployment cs ns d s)))
   \<and> (probe_present (fst (deploymentExists cs ns (MetaName (ObjectMeta d)) s))
      \<longrightarrow> one_update s (snd (CreateOrUpdateDeployment cs ns d s)))
   \<and> at_most_one_write s (snd (CreateOrUpdateDeployment cs ns d s))"
  by (auto simp: CreateOrUpdateDeployment_def deploymentExists_def count_defs Let_def
      split: sum.splits)

lemma ApplyConfigMap_writes:
  "(probe_absent (fst (configMapExists cs ns (MetaName (ObjectMeta d)) s))
      \<longrightarrow> one_create s (snd (ApplyConfigMap cs ns d s)))
   \<and> (probe_present (fst (configMapExists cs ns (MetaName (ObjectMeta d)) s))
      \<longrightarrow> one_update s (snd (ApplyConfigMap cs ns d s)))
   \<and> at_most_one_write s (snd (ApplyConfigMap cs ns d s))"
  by (auto simp: ApplyConfigMap_def configMapExists_def count_defs Let_def
      split: sum.splits)

lemma ApplyService_writes:
  "(probe_absent (snd (fst (getService cs ns (MetaName (ObjectMeta d)) s)))
      \<longrightarrow> one_create s (snd (ApplyService cs ns d s)))
   \<and> (probe_present (snd (fst (getService cs ns (MetaName (ObjectMeta d)) s)))
      \<longrightarrow> one_update s (snd (ApplyService cs ns d s)))
   \<and> at_most_one_write s (snd (ApplyService cs ns d s))"
  by (auto simp: ApplyService_def getService_def count_defs Let_def
      split: sum.splits)

lemma ApplyIngress_writes:
  "(probe_absent (snd (fst (getIngress cs ns (MetaName (ObjectMeta d)) s)))
      \<longrightarrow> one_create s (snd (ApplyIngress cs ns d s)))
   \<and> (probe_present (snd (fst (getIngress cs ns (MetaName (ObjectMeta d)) s)))
      \<longrightarrow> one_update s (snd (ApplyIngress cs ns d s)))
   \<and> at_most_one_write s (snd (ApplyIngress cs ns d s))"
  by (auto simp: ApplyIngress_def getIngress_def count_defs Let_def
      split: sum.splits)

lemma ApplyCronJob_writes:
  "(probe_absent (snd (fst (getCronJob cs ns (MetaName (ObjectMeta d)) s)))
      \<longrightarrow> one_create s (snd (ApplyCronJob cs ns d s)))
   \<and> (probe_present (snd (fst (getCronJob cs ns (MetaName (ObjectMeta d)) s)))
      \<longrightarrow> one_update s (snd (ApplyCronJob cs ns d s)))
   \<and> at_most_one_write s (snd (ApplyCronJob cs ns d s))"
  by (auto simp: ApplyCronJob_def getCronJob_def count_defs Let_def
      split: sum.splits)

text \<open>
  C1. For each of the five resource kinds: when the existence probe reports the resource
  absent, the reconciler adds exactly one create request and no update request to the log;
  when the probe reports it present, exactly one update request and no create request;
  and whatever the probe answers (a lookup error included), one invocation adds at most one
  write request, so never a create and an update together.
\<close>

theorem reconcile_one_create_or_one_update:
  "((probe_absent (fst (deploymentExists cs ns (MetaName (ObjectMeta d)) s))
      \<longrightarrow> one_create s (snd (CreateOrUpdateDeployment cs ns d s)))
    \<and> (probe_present (fst (deploymentExists cs ns (MetaName (ObjectMeta d)) s))
      \<longrightarrow> one_update s (snd (CreateOrUpdateDeployment cs ns d s)))
    \<and> at_most_one_write s (snd (CreateOrUpdateDeployment cs ns d s)))
   \<and> ((probe_absent (fst (configMapExists cs ns (MetaName (ObjectMeta m)) s))
      \<longrightarrow> one_create s (snd (ApplyConfigMap cs ns m s)))
    \<and> (probe_present (fst (configMapExists cs ns (MetaName (ObjectMeta m)) s))
      \<longrightarrow> one_update s (snd (ApplyConfigMap cs ns m s)))
    \<and> at_most_one_write s (snd (ApplyConfigMap cs ns m s)))
   \<and> ((probe_absent (snd (fst (getService cs ns (MetaName (ObjectMeta m)) s)))
      \<longrightarrow> one_create s (snd (ApplyService cs ns m s)))
    \<and> (probe_present (snd (fst (getService cs ns (MetaName (ObjectMeta m)) s)))
      \<longrightarrow> one_update s (snd (ApplyService cs ns m s)))
    \<and> at_most_one_write s (snd (ApplyService cs ns m s)))
   \<and> ((probe_absent (snd (fst (getIngress cs ns (MetaName (ObjectMeta m)) s)))
      \<longrightarrow> one_create s (snd (ApplyIngress cs ns m s)))
    \<and> (probe_present (snd (fst (getIngress cs ns (MetaName (ObjectMeta m)) s)))
      \<longrightarrow> one_update s (snd (ApplyIngress cs ns m s)))
    \<and> at_most_one_write s (snd (ApplyIngress cs ns m s)))
   \<and> ((probe_absent (snd (fst (getCronJob cs ns (MetaName (ObjectMeta m)) s)))
      \<longrightarrow> one_create s (snd (ApplyCronJob cs ns m s)))
    \<and> (probe_present (snd (fst (getCronJob cs ns (MetaName (ObjectMeta m)) s)))
      \<longrightarrow> one_update s (snd (ApplyCronJob cs ns m s)))
    \<and> at_most_one_write s (snd (ApplyCronJob cs ns m s)))"
  using CreateOrUpdateDeployment_writes [of cs ns d s] ApplyConfigMap_writes [of cs ns m s]
    ApplyService_writes [of cs ns m s] ApplyIngress_writes [of cs ns m s]
    ApplyCronJob_writes [of cs ns m s]
  by blast

text \<open>
  The same on an empty cluster (one create each) and on a cluster that holds the resources
  (one update each).
\<close>

theorem reconcile_one_create_or_one_update_witness:
  "(probe_absent (fst (deploymentExists empty_cluster ''default'' ''web'' initial_state))
    \<and> one_create initial_state
        (snd (CreateOrUpdateDeployment empty_cluster ''default''
           (deployment_doc ''web'' ''default'' [] 0) initial_state))
    \<and> probe_absent (snd (fst (getService empty_cluster ''default'' ''web'' initial_state)))
    \<and> one_create initial_state
        (snd (ApplyService empty_cluster ''default'' (doc ''web'' ''default'' []) initial_state)))
   \<and> (probe_present (fst (deploymentExists live_cluster ''default'' ''web'' initial_state))
    \<and> one_update initial_state
        (snd (CreateOrUpdateDeployment live_cluster ''default''
           (deployment_doc ''web'' ''default'' [] 0) initial_state))
    \<and> probe_present (snd (fst (getService live_cluster ''default'' ''web'' initial_state)))
    \<and> one_update initial_state
        (snd (ApplyService live_cluster ''default'' (doc ''web'' ''default'' []) initial_state)))"
proof -
  have absent: "probe_absent (fst (deploymentExists empty_cluster ''default'' ''web'' initial_state))"
    "probe_absent (snd (fst (getService empty_cluster ''default'' ''web'' initial_state)))"
    by (simp_all add: probe_absent_def deploymentExists_def getService_def fixture_defs
        StatusNotFound_def)
  have present: "probe_present (fst (deploymentExists live_cluster ''default'' ''web'' initial_state))"
    "probe_present (snd (fst (getService live_cluster ''default'' ''web'' initial_state)))"
    by (simp_all add: probe_present_def deploymentExists_def getService_def fixture_defs)
  have names: "MetaName (ObjectMeta (deployment_doc ''web'' ''default'' [] 0)) = ''web''"
    "MetaName (ObjectMeta (doc ''web'' ''default'' [])) = ''web''"
    by (simp_all add: fixture_defs)
  show ?thesis
    using absent present names
      reconcile_one_create_or_one_update [of empty_cluster "''default''"
        "deployment_doc ''web'' ''default'' [] 0" initial_state "doc ''web'' ''default'' []"]
      reconcile_one_create_or_one_update [of live_cluster "''default''"
        "deployment_doc ''web'' ''default'' [] 0" initial_state "doc ''web'' ''default'' []"]
    by simp
qed

text \<open>
  C2. When the lookup finds the resource, \<open>ApplyService\<close> sends the update with the
  document the lookup fetched, which carries the metadata the server assigned, and hands
  that document to the client; the reconcilers of Deployment, ConfigMap, Ingress and
  CronJob send the update with the caller's document as it is.
\<close>

theorem update_sends_live_service_desired_others:
  "(Get (CoreV1_Services cs) (Calls s) ns (MetaName (ObjectMeta service)) = Inr live
      \<longrightarrow> Calls (snd (ApplyService cs ns service s))
            = Calls s @ [GetCall Services ns (MetaName (ObjectMeta service)),
                         UpdateCall Services ns (Service live)]
        \<and> fst (ApplyService cs ns service s)
            = Update (CoreV1_Services cs)
                (Calls s @ [GetCall Services ns (MetaName (ObjectMeta service))]) ns live)
   \<and> (Get (AppsV1_Deployments cs) (Calls s) ns (MetaName (ObjectMeta deployment)) = Inr liveD
      \<longrightarrow> Calls (snd (CreateOrUpdateDeployment cs ns deployment s))
            = Calls s @ [GetCall Deployments ns (MetaName (ObjectMeta deployment)),
                         UpdateCall Deployments ns (Deployment deployment)]
        \<and> fst (CreateOrUpdateDeployment cs ns deployment s)
            = Update (AppsV1_Deployments cs)
                (Calls s @ [GetCall Deployments ns (MetaName (ObjectMeta deployment))])
                ns deployment)
   \<and> (Get (CoreV1_ConfigMaps cs) (Calls s) ns (MetaName (ObjectMeta configMap)) = Inr liveC
      \<longrightarrow> Calls (snd (ApplyConfigMap cs ns configMap s))
            = Calls s @ [GetCall ConfigMaps ns (MetaName (ObjectMeta configMap)),
                         UpdateCall ConfigMaps ns (ConfigMap configMap)]
        \<and> fst (ApplyConfigMap cs ns configMap s)
            = Update (CoreV1_ConfigMaps cs)
                (Calls s @ [GetCall ConfigMaps ns (MetaName (ObjectMeta configMap))])
                ns configMap)
   \<and> (Get (ExtensionsV1beta1_Ingresses cs) (Calls s) ns (MetaName (ObjectMeta ingress)) = Inr liveI
      \<longrightarrow> Calls (snd (ApplyIngress cs ns ingress s))
            = Calls s @ [GetCall Ingresses ns (MetaName (ObjectMeta ingress)),
                         UpdateCall Ingresses ns (Ingress ingress)]
        \<and> fst (ApplyIngress cs ns ingress s)
            = Update (ExtensionsV1beta1_Ingresses cs)
                (Calls s @ [GetCall Ingresses ns (MetaName (ObjectMeta ingress))])
                ns ingress)
   \<and> (Get (BatchV1_CronJobs cs) (Calls s) ns (MetaName (ObjectMeta cronjob)) = Inr liveJ
      \<longrightarrow> Calls (snd (ApplyCronJob cs ns cronjob s))
            = Calls s @ [GetCall CronJobs ns (MetaName (ObjectMeta cronjob)),
                         UpdateCall CronJobs ns (CronJob cronjob)]
        \<and> fst (ApplyCronJob cs ns cronjob s)
            = Update (BatchV1_CronJobs cs)
                (Calls s @ [GetCall CronJobs ns (MetaName (ObjectMeta cronjob))])
                ns cronjob)"
  by (simp add: ApplyService_def getService_def CreateOrUpdateDeployment_def
      deploymentExists_def ApplyConfigMap_def configMapExists_def ApplyIngress_def
      getIngress_def ApplyCronJob_def getCronJob_def record_call_def Let_def)

text \<open>
  On a cluster whose Service has resource version 43 and whose ConfigMap has resource
  version 42, a caller's document without a resource version is replaced by the fetched one
  for the Service and is sent unchanged for the ConfigMap.
\<close>

theorem update_sends_live_service_desired_others_witness:
  "Get (CoreV1_Services live_cluster) (Calls initial_state) ''default''
       (MetaName (ObjectMeta (doc ''web'' ''default'' []))) = Inr (doc ''web'' ''default'' ''43'')
   \<and> Calls (snd (ApplyService live_cluster ''default'' (doc ''web'' ''default'' []) initial_state))
       = [GetCall Services ''default'' ''web'',
          UpdateCall Services ''default'' (Service (doc ''web'' ''default'' ''43''))]
   \<and> Get (CoreV1_ConfigMaps live_cluster) (Calls initial_state) ''default''
       (MetaName (ObjectMeta (doc ''web'' ''default'' []))) = Inr (doc ''web'' ''default'' ''42'')
   \<and> Calls (snd (ApplyConfigMap live_cluster ''default'' (doc ''web'' ''default'' []) initial_state))
       = [GetCall ConfigMaps ''default'' ''web'',
          UpdateCall ConfigMaps ''default'' (ConfigMap (doc ''web'' ''default'' []))]"
proof -
  have svc: "Get (CoreV1_Services live_cluster) (Calls initial_state) ''default''
       (MetaName (ObjectMeta (doc ''web'' ''default'' []))) = Inr (doc ''web'' ''default'' ''43'')"
    by (simp add: fixture_defs)
  have cm: "Get (CoreV1_ConfigMaps live_cluster) (Calls initial_state) ''default''
       (MetaName (ObjectMeta (doc ''web'' ''default'' []))) = Inr (doc ''web'' ''default'' ''42'')"
    by (simp add: fixture_defs)
  have name: "MetaName (ObjectMeta (doc ''web'' ''default'' [])) = ''web''"
    by (simp add: fixture_defs)
  have start: "Calls initial_state = []"
    by (simp add: initial_state_def)
  show ?thesis
    using svc cm
      update_sends_live_service_desired_others [where cs = live_cluster
        and s = initial_state and ns = "''default''"
        and service = "doc ''web'' ''default'' []" and live = "doc ''web'' ''default'' ''43''"
        and configMap = "doc ''web'' ''default'' []"
        and liveC = "doc ''web'' ''default'' ''42''"]
    by (simp add: name start)
qed

text \<open>
  C3. For each of the five resource kinds: when the lookup fails with a status error of
  code 404, the probe answers not found, with no document and a nil error; when the lookup
  fails with any other error, the probe answers not found and returns that very error.
\<close>

theorem probe_not_found_and_other_errors:
  "(Get (AppsV1_Deployments cs) (Calls s) ns name = Inl (StatusError 404 msg)
      \<longrightarrow> fst (deploymentExists cs ns name s) = (False, None))
   \<and> (Get (AppsV1_Deployments cs) (Calls s) ns name = Inl err
        \<and> (\<forall>m. err \<noteq> StatusError 404 m)
      \<longrightarrow> fst (deploymentExists cs ns name s) = (False, Some err))
   \<and> (Get (CoreV1_ConfigMaps cs) (Calls s) ns name = Inl (StatusError 404 msg)
      \<longrightarrow> fst (configMapExists cs ns name s) = (False, None))
   \<and> (Get (CoreV1_ConfigMaps cs) (Calls s) ns name = Inl err
        \<and> (\<forall>m. err \<noteq> StatusError 404 m)
      \<longrightarrow> fst (configMapExists cs ns name s) = (False, Some err))
   \<and> (Get (CoreV1_Services cs) (Calls s) ns name = Inl (StatusError 404 msg)
      \<longrightarrow> fst (getService cs ns name s) = (None, False, None))
   \<and> (Get (CoreV1_Services cs) (Calls s) ns name = Inl err
        \<and> (\<forall>m. err \<noteq> StatusError 404 m)
      \<longrightarrow> fst (getService cs ns name s) = (None, False, Some err))
   \<and> (Get (ExtensionsV1beta1_Ingresses cs) (Calls s) ns name = Inl (StatusError 404 msg)
      \<longrightarrow> fst (getIngress cs ns name s) = (None, False, None))
   \<and> (Get (ExtensionsV1beta1_Ingresses cs) (Calls s) ns name = Inl err
        \<and> (\<forall>m. err \<noteq> StatusError 404 m)
      \<longrightarrow> fst (getIngress cs ns name s) = (None, False, Some err))
   \<and> (Get (BatchV1_CronJobs cs) (Calls s) ns name = Inl (StatusError 404 msg)
      \<longrightarrow> fst (getCronJob cs ns name s) = (None, False, None))
   \<and> (Get (BatchV1_CronJobs cs) (Calls s) ns name = Inl err
        \<and> (\<forall>m. err \<noteq> StatusError 404 m)
      \<longrightarrow> fst (getCronJob cs ns name s) = (None, False, Some err))"
proof -
  have other: "(\<forall>m. err \<noteq> StatusError 404 m) \<Longrightarrow> \<not> isStatusNotFound err"
    by (cases err) (simp_all add: StatusNotFound_def)
  show ?thesis
    using other
    by (simp add: deploymentExists_def configMapExists_def getService_def getIngress_def
        getCronJob_def Let_def StatusNotFound_def)
qed

text \<open>
  On the empty cluster the lookups answer 404; on the cluster that refuses every request
  they answer 403, which the probes hand back.
\<close>

theorem probe_not_found_and_other_errors_witness:
  "Get (AppsV1_Deployments empty_cluster) (Calls initial_state) ''default'' ''web''
     = Inl (StatusError 404 ''not found'')
   \<and> fst (deploymentExists empty_cluster ''default'' ''web'' initial_state) = (False, None)
   \<and> fst (getService empty_cluster ''default'' ''web'' initial_state) = (None, False, None)
   \<and> Get (AppsV1_Deployments broken_cluster) (Calls initial_state) ''default'' ''web''
     = Inl (StatusError 403 ''forbidden'')
   \<and> fst (deploymentExists broken_cluster ''default'' ''web'' initial_state)
     = (False, Some (StatusError 403 ''forbidden''))
   \<and> fst (getService broken_cluster ''default'' ''web'' initial_state)
     = (None, False, Some (StatusError 403 ''forbidden''))"
proof -
  have absent: "Get (AppsV1_Deployments empty_cluster) (Calls initial_state) ''default'' ''web''
     = Inl (StatusError 404 ''not found'')"
    "Get (CoreV1_ConfigMaps empty_cluster) (Calls initial_state) ''default'' ''web''
     = Inl (StatusError 404 ''not found'')"
    "Get (CoreV1_Services empty_cluster) (Calls initial_state) ''default'' ''web''
     = Inl (StatusError 404 ''not found'')"
    "Get (ExtensionsV1beta1_Ingresses empty_cluster) (Calls initial_state) ''default'' ''web''
     = Inl (StatusError 404 ''not found'')"
    "Get (BatchV1_CronJobs empty_cluster) (Calls initial_state) ''default'' ''web''
     = Inl (StatusError 404 ''not found'')"
    by (simp_all add: fixture_defs)
  have broken: "Get (AppsV1_Deployments broken_cluster) (Calls initial_state) ''default'' ''web''
     = Inl (StatusError 403 ''forbidden'')"
    "Get (CoreV1_ConfigMaps broken_cluster) (Calls initial_state) ''default'' ''web''
     = Inl (StatusError 403 ''forbidden'')"
    "Get (CoreV1_Services broken_cluster) (Calls initial_state) ''default'' ''web''
     = Inl (StatusError 403 ''forbidden'')"
    "Get (ExtensionsV1beta1_Ingresses broken_cluster) (Calls initial_state) ''default'' ''web''
     = Inl (StatusError 403 ''forbidden'')"
    "Get (BatchV1_CronJobs broken_cluster) (Calls initial_state) ''default'' ''web''
     = Inl (StatusError 403 ''forbidden'')"
    by (simp_all add: fixture_defs)
  have differs: "\<forall>m. StatusError 403 ''forbidden'' \<noteq> StatusError 404 m"
    by simp
  show ?thesis
    using absent broken differs
      probe_not_found_and_other_errors [where cs = empty_cluster and s = initial_state
        and ns = "''default''" and name = "''web''" and msg = "''not found''"
        and err = "StatusError 404 ''not found''"]
      probe_not_found_and_other_errors [where cs = broken_cluster and s = initial_state
        and ns = "''default''" and name = "''web''" and msg = "''not found''"
        and err = "StatusError 403 ''forbidden''"]
    by simp
qed

section \<open>Settlement watcher\<close>

lemma settle_loop_frame:
  "Calls (snd (settle_loop selects s)) = Calls s
   \<and> OpenWatches (snd (settle_loop selects s)) = OpenWatches s"
  by (induction selects s rule: settle_loop.induct)
     (simp_all add: Let_def split: runtime_object.splits)

lemma settle_loop_unavailable:
  "reports_unavailable e \<Longrightarrow>
     settle_loop (ResultChan e # rest) s
       = settle_loop rest (s\<lparr>EventsReceived := EventsReceived s + 1\<rparr>)"
  by (auto simp: reports_unavailable_def Let_def split: runtime_object.splits)

lemma settle_loop_not_deployment:
  "\<not> carries_deployment (ResultChan bad) \<Longrightarrow>
     \<exists>msg. fst (settle_loop (ResultChan bad # rest) s) = Panic msg"
  by (auto simp: carries_deployment_def Let_def split: runtime_object.splits)

lemma settle_loop_timer:
  "\<forall>e \<in> set evs. reports_unavailable e \<Longrightarrow>
     settle_loop (map ResultChan evs @ TimerC # rest) s
       = (Return (stateFailed,
            Some (ErrorString ''deployment watcher timed out. Something is wrong'')),
          s\<lparr>EventsReceived := EventsReceived s + length evs\<rparr>)"
proof (induction evs arbitrary: s)
  case Nil
  then show ?case by simp
next
  case (Cons e evs)
  then show ?case
    by (simp add: settle_loop_unavailable del: settle_loop.simps)
qed

lemma settle_loop_bad_event:
  "\<forall>e \<in> set evs. reports_unavailable e \<Longrightarrow>
   \<not> carries_deployment (ResultChan bad) \<Longrightarrow>
     \<exists>msg. fst (settle_loop (map ResultChan evs @ ResultChan bad # rest) s) = Panic msg"
proof (induction evs arbitrary: s)
  case Nil
  then show ?case
    using settle_loop_not_deployment by simp
next
  case (Cons e evs)
  then show ?case
    by (simp add: settle_loop_unavailable del: settle_loop.simps)
qed

lemma settle_loop_no_panic:
  "\<forall>c \<in> set selects. carries_deployment c \<Longrightarrow> fst (settle_loop selects s) \<noteq> Panic msg"
  by (induction selects s rule: settle_loop.induct)
     (simp_all add: carries_deployment_def Let_def split: runtime_object.splits)

lemma settle_loop_returns:
  "\<forall>c \<in> set selects. carries_deployment c \<Longrightarrow> TimerC \<in> set selects \<Longrightarrow>
     \<exists>r. fst (settle_loop selects s) = Return r"
  by (induction selects s rule: settle_loop.induct)
     (auto simp: carries_deployment_def Let_def split: runtime_object.splits)

text \<open>
  The claim that the watcher releases its subscription before it returns fails: on a
  cluster whose Deployment has no unavailable replicas, the watcher opens the subscription,
  returns the updated label with a nil error, and leaves the subscription open; the
  requests it issued are the watch and the read, and no stop.
\<close>

theorem watcher_releases_subscription_counterexample:
  "\<not> isl (AppsV1_Deployments_Watch (rolling_cluster 0 []) (Calls initial_state) ''default''
            ''metadata.name=web'')
   \<and> fst (waitUntilDeploymentSettled (rolling_cluster 0 []) ''default'' ''web'' 120 initial_state)
       = Return (stateUpdated, None)
   \<and> OpenWatches initial_state = 0
   \<and> OpenWatches (snd (waitUntilDeploymentSettled (rolling_cluster 0 []) ''default'' ''web'' 120
        initial_state)) = 1
   \<and> Calls (snd (waitUntilDeploymentSettled (rolling_cluster 0 []) ''default'' ''web'' 120
        initial_state))
       = [WatchCall Deployments ''default'' ''metadata.name=web'',
          GetCall Deployments ''default'' ''web'']"
  by (simp add: run_defs)

text \<open>
  C4, amended. For every invocation of the settlement watcher that opens its subscription,
  the subscription is still open when the watcher ends, whatever the path (settled, read
  error, timeout, and also a panic): the count of open subscriptions is one higher than
  before, and the requests the watcher issued are exactly the watch and the read, without
  any stop.
\<close>

theorem watcher_never_stops_subscription:
  assumes "AppsV1_Deployments_Watch cs (Calls s) ns (''metadata.name='' @ name) = Inr w"
  shows "OpenWatches (snd (waitUntilDeploymentSettled cs ns name t s)) = OpenWatches s + 1
     \<and> Calls (snd (waitUntilDeploymentSettled cs ns name t s))
         = Calls s @ [WatchCall Deployments ns (''metadata.name='' @ name),
                      GetCall Deployments ns name]"
  using assms settle_loop_frame [of "w t"]
  by (simp add: waitUntilDeploymentSettled_def record_call_def Let_def split: sum.splits)

theorem watcher_never_stops_subscription_witness:
  "AppsV1_Deployments_Watch (rolling_cluster 1 [TimerC]) (Calls initial_state) ''default''
      (''metadata.name='' @ ''web'') = Inr (\<lambda>seconds. [TimerC])
   \<and> OpenWatches (snd (waitUntilDeploymentSettled (rolling_cluster 1 [TimerC]) ''default''
        ''web'' 120 initial_state)) = OpenWatches initial_state + 1
   \<and> Calls (snd (waitUntilDeploymentSettled (rolling_cluster 1 [TimerC]) ''default''
        ''web'' 120 initial_state))
       = Calls initial_state @ [WatchCall Deployments ''default'' (''metadata.name='' @ ''web''),
                                GetCall Deployments ''default'' ''web'']"
proof -
  have opened: "AppsV1_Deployments_Watch (rolling_cluster 1 [TimerC]) (Calls initial_state)
      ''default'' (''metadata.name='' @ ''web'') = Inr (\<lambda>seconds. [TimerC])"
    by (simp add: rolling_cluster_def)
  show ?thesis
    using opened watcher_never_stops_subscription [OF opened, of 120]
    by simp
qed

text \<open>
  The claim that a timeout has a status label of its own, distinct from that of a failure,
  fails: when the timer fires first, the watcher returns the same label as when the read
  of the Deployment fails. The two outcomes differ in their errors only.
\<close>

theorem timed_out_label_counterexample:
  "fst (waitUntilDeploymentSettled (rolling_cluster 1 [TimerC]) ''default'' ''web'' 1 initial_state)
     = Return (stateFailed,
         Some (ErrorString ''deployment watcher timed out. Something is wrong''))
   \<and> fst (waitUntilDeploymentSettled unreadable_cluster ''default'' ''web'' 1 initial_state)
     = Return (stateFailed, Some (WrapError ''get deployment; '' (StatusError 403 ''forbidden'')))
   \<and> returned_label
       (fst (waitUntilDeploymentSettled (rolling_cluster 1 [TimerC]) ''default'' ''web'' 1
          initial_state))
     = returned_label
       (fst (waitUntilDeploymentSettled unreadable_cluster ''default'' ''web'' 1 initial_state))"
  by (simp add: run_defs)

text \<open>
  C5, amended. For every run of the settlement watcher in which the initial read shows
  unavailable replicas, every event received before the timer fires carries a Deployment
  with unavailable replicas, and then the timer fires, the watcher returns the failed
  label, the one it also returns when the watch or the read fails, together with the
  non-nil error that says the deployment watcher timed out.
\<close>

theorem timeout_returns_failed_label:
  assumes "AppsV1_Deployments_Watch cs (Calls s) ns (''metadata.name='' @ name) = Inr w"
    and "Get (AppsV1_Deployments cs)
           (Calls s @ [WatchCall Deployments ns (''metadata.name='' @ name)]) ns name = Inr live"
    and "UnavailableReplicas live \<noteq> 0"
    and "w t = map ResultChan evs @ TimerC # rest"
    and "\<forall>e \<in> set evs. reports_unavailable e"
  shows "fst (waitUntilDeploymentSettled cs ns name t s)
     = Return (stateFailed,
         Some (ErrorString ''deployment watcher timed out. Something is wrong''))"
  using assms(1-4) settle_loop_timer [OF assms(5)]
  by (simp add: waitUntilDeploymentSettled_def record_call_def Let_def)

theorem timeout_returns_failed_label_witness:
  "AppsV1_Deployments_Watch (rolling_cluster 1 [ResultChan (deployment_event 2), TimerC])
      (Calls initial_state) ''default'' (''metadata.name='' @ ''web'')
     = Inr (\<lambda>seconds. [ResultChan (deployment_event 2), TimerC])
   \<and> reports_unavailable (deployment_event 2)
   \<and> fst (waitUntilDeploymentSettled
            (rolling_cluster 1 [ResultChan (deployment_event 2), TimerC])
            ''default'' ''web'' 1 initial_state)
     = Return (stateFailed,
         Some (ErrorString ''deployment watcher timed out. Something is wrong''))"
proof -
  let ?cs = "rolling_cluster 1 [ResultChan (deployment_event 2), TimerC]"
  let ?w = "\<lambda>seconds::int. [ResultChan (deployment_event 2), TimerC]"
  have opened: "AppsV1_Deployments_Watch ?cs (Calls initial_state) ''default''
      (''metadata.name='' @ ''web'') = Inr ?w"
    by (simp add: rolling_cluster_def)
  have read: "Get (AppsV1_Deployments ?cs)
      (Calls initial_state @ [WatchCall Deployments ''default'' (''metadata.name='' @ ''web'')])
      ''default'' ''web'' = Inr (deployment_doc ''web'' ''default'' ''41'' 1)"
    by (simp add: rolling_cluster_def present_client_def)
  have nonzero: "UnavailableReplicas (deployment_doc ''web'' ''default'' ''41'' 1) \<noteq> 0"
    by (simp add: deployment_doc_def)
  have selects: "?w 1 = map ResultChan [deployment_event 2] @ TimerC # []"
    by simp
  have events: "\<forall>e \<in> set [deployment_event 2]. reports_unavailable e"
    by (simp add: reports_unavailable_def deployment_event_def deployment_doc_def)
  show ?thesis
    using opened events timeout_returns_failed_label [OF opened read nonzero selects events]
    by simp
qed

text \<open>
  C6. If the subscription opens and the initial read of the Deployment shows no
  unavailable replicas, the watcher returns the updated label with a nil error and has
  received no event from the subscription.
\<close>

theorem settled_at_once_without_events:
  assumes "AppsV1_Deployments_Watch cs (Calls s) ns (''metadata.name='' @ name) = Inr w"
    and "Get (AppsV1_Deployments cs)
           (Calls s @ [WatchCall Deployments ns (''metadata.name='' @ name)]) ns name = Inr live"
    and "UnavailableReplicas live = 0"
  shows "fst (waitUntilDeploymentSettled cs ns name t s) = Return (stateUpdated, None)
     \<and> EventsReceived (snd (waitUntilDeploymentSettled cs ns name t s)) = EventsReceived s"
  using assms
  by (simp add: waitUntilDeploymentSettled_def record_call_def Let_def stateUpdated_def)

text \<open>
  Here the one pending event would make the loop panic; it is never received.
\<close>

theorem settled_at_once_without_events_witness:
  "UnavailableReplicas (deployment_doc ''web'' ''default'' ''41'' 0) = 0
   \<and> fst (waitUntilDeploymentSettled (rolling_cluster 0 [ResultChan closed_channel_event])
            ''default'' ''web'' 120 initial_state) = Return (stateUpdated, None)
   \<and> EventsReceived (snd (waitUntilDeploymentSettled
            (rolling_cluster 0 [ResultChan closed_channel_event])
            ''default'' ''web'' 120 initial_state)) = EventsReceived initial_state"
proof -
  let ?cs = "rolling_cluster 0 [ResultChan closed_channel_event]"
  have opened: "AppsV1_Deployments_Watch ?cs (Calls initial_state) ''default''
      (''metadata.name='' @ ''web'') = Inr (\<lambda>seconds. [ResultChan closed_channel_event])"
    by (simp add: rolling_cluster_def)
  have read: "Get (AppsV1_Deployments ?cs)
      (Calls initial_state @ [WatchCall Deployments ''default'' (''metadata.name='' @ ''web'')])
      ''default'' ''web'' = Inr (deployment_doc ''web'' ''default'' ''41'' 0)"
    by (simp add: rolling_cluster_def present_client_def)
  have zero: "UnavailableReplicas (deployment_doc ''web'' ''default'' ''41'' 0) = 0"
    by (simp add: deployment_doc_def)
  show ?thesis
    using zero settled_at_once_without_events [OF opened read zero, of 120]
    by simp
qed

text \<open>
  C7. If the initial read shows unavailable replicas and the first two outcomes of the
  \<open>select\<close> statement are an event whose Deployment has unavailable replicas and then an
  event whose Deployment has none, the watcher returns the updated label with a nil error
  after receiving exactly two events.
\<close>

theorem settled_after_two_events:
  assumes "AppsV1_Deployments_Watch cs (Calls s) ns (''metadata.name='' @ name) = Inr w"
    and "Get (AppsV1_Deployments cs)
           (Calls s @ [WatchCall Deployments ns (''metadata.name='' @ name)]) ns name = Inr live"
    and "UnavailableReplicas live \<noteq> 0"
    and "w t = ResultChan e1 # ResultChan e2 # rest"
    and "EventObject e1 = Deployment d1" and "UnavailableReplicas d1 \<noteq> 0"
    and "EventObject e2 = Deployment d2" and "UnavailableReplicas d2 = 0"
  shows "fst (waitUntilDeploymentSettled cs ns name t s) = Return (stateUpdated, None)
     \<and> EventsReceived (snd (waitUntilDeploymentSettled cs ns name t s)) = EventsReceived s + 2"
  using assms
  by (simp add: waitUntilDeploymentSettled_def record_call_def Let_def)

theorem settled_after_two_events_witness:
  "UnavailableReplicas (deployment_doc ''web'' ''default'' ''41'' 3) \<noteq> 0
   \<and> fst (waitUntilDeploymentSettled
            (rolling_cluster 3
               [ResultChan (deployment_event 1), ResultChan (deployment_event 0), TimerC])
            ''default'' ''web'' 120 initial_state) = Return (stateUpdated, None)
   \<and> EventsReceived (snd (waitUntilDeploymentSettled
            (rolling_cluster 3
               [ResultChan (deployment_event 1), ResultChan (deployment_event 0), TimerC])
            ''default'' ''web'' 120 initial_state)) = EventsReceived initial_state + 2"
proof -
  let ?sel = "[ResultChan (deployment_event 1), ResultChan (deployment_event 0), TimerC]"
  let ?cs = "rolling_cluster 3 ?sel"
  have opened: "AppsV1_Deployments_Watch ?cs (Calls initial_state) ''default''
      (''metadata.name='' @ ''web'') = Inr (\<lambda>seconds. ?sel)"
    by (simp add: rolling_cluster_def)
  have read: "Get (AppsV1_Deployments ?cs)
      (Calls initial_state @ [WatchCall Deployments ''default'' (''metadata.name='' @ ''web'')])
      ''default'' ''web'' = Inr (deployment_doc ''web'' ''default'' ''41'' 3)"
    by (simp add: rolling_cluster_def present_client_def)
  have nonzero: "UnavailableReplicas (deployment_doc ''web'' ''default'' ''41'' 3) \<noteq> 0"
    by (simp add: deployment_doc_def)
  have selects: "(\<lambda>seconds::int. ?sel) 120
      = ResultChan (deployment_event 1) # ResultChan (deployment_event 0) # [TimerC]"
    by simp
  have e1: "EventObject (deployment_event 1)
      = Deployment (deployment_doc ''web'' ''default'' ''41'' 1)"
    "UnavailableReplicas (deployment_doc ''web'' ''default'' ''41'' 1) \<noteq> 0"
    by (simp_all add: deployment_event_def deployment_doc_def)
  have e2: "EventObject (deployment_event 0)
      = Deployment (deployment_doc ''web'' ''default'' ''41'' 0)"
    "UnavailableReplicas (deployment_doc ''web'' ''default'' ''41'' 0) = 0"
    by (simp_all add: deployment_event_def deployment_doc_def)
  show ?thesis
    using nonzero
      settled_after_two_events [OF opened read nonzero selects e1(1) e1(2) e2(1) e2(2)]
    by simp
qed

text \<open>
  C10. In the observing loop (entered when the subscription opened and the initial read
  showed unavailable replicas) the object of every received event is converted by an
  unchecked type assertion. If every event the subscription delivers carries a Deployment,
  the watcher never panics, and it returns as soon as the timer is among the outcomes. If
  the loop receives an event whose object is not a Deployment (a status object, or the nil
  object of the zero event of a closed channel) before it has seen a settled Deployment or
  the timer, the watcher panics; it does not return the failed label with an error.
\<close>

theorem unchecked_assertion_panics:
  assumes "AppsV1_Deployments_Watch cs (Calls s) ns (''metadata.name='' @ name) = Inr w"
    and "Get (AppsV1_Deployments cs)
           (Calls s @ [WatchCall Deployments ns (''metadata.name='' @ name)]) ns name = Inr live"
    and "UnavailableReplicas live \<noteq> 0"
  shows "((\<forall>c \<in> set (w t). carries_deployment c)
            \<longrightarrow> (\<forall>msg. fst (waitUntilDeploymentSettled cs ns name t s) \<noteq> Panic msg))
     \<and> ((\<forall>c \<in> set (w t). carries_deployment c) \<and> TimerC \<in> set (w t)
            \<longrightarrow> (\<exists>r. fst (waitUntilDeploymentSettled cs ns name t s) = Return r))
     \<and> (w t = map ResultChan evs @ ResultChan bad # rest
          \<and> (\<forall>e \<in> set evs. reports_unavailable e) \<and> \<not> carries_deployment (ResultChan bad)
            \<longrightarrow> (\<exists>msg. fst (waitUntilDeploymentSettled cs ns name t s) = Panic msg))"
proof -
  have run: "waitUntilDeploymentSettled cs ns name t s
      = settle_loop (w t)
          (record_call (GetCall Deployments ns name)
            ((record_call (WatchCall Deployments ns (''metadata.name='' @ name)) s)
               \<lparr>OpenWatches := OpenWatches s + 1\<rparr>))"
    using assms by (simp add: waitUntilDeploymentSettled_def record_call_def Let_def)
  show ?thesis
    unfolding run
    using settle_loop_no_panic settle_loop_returns settle_loop_bad_event
    by metis
qed

theorem unchecked_assertion_panics_witness:
  "carries_deployment (ResultChan (deployment_event 1))
   \<and> carries_deployment TimerC
   \<and> (\<exists>r. fst (waitUntilDeploymentSettled
                 (rolling_cluster 3 [ResultChan (deployment_event 1), TimerC])
                 ''default'' ''web'' 120 initial_state) = Return r)
   \<and> \<not> carries_deployment (ResultChan closed_channel_event)
   \<and> (\<exists>msg. fst (waitUntilDeploymentSettled
                 (rolling_cluster 3
                    [ResultChan (deployment_event 1), ResultChan closed_channel_event])
                 ''default'' ''web'' 120 initial_state) = Panic msg)"
proof -
  let ?good = "[ResultChan (deployment_event 1), TimerC]"
  let ?bad = "[ResultChan (deployment_event 1), ResultChan closed_channel_event]"
  have opened: "AppsV1_Deployments_Watch (rolling_cluster 3 sel) (Calls initial_state) ''default''
      (''metadata.name='' @ ''web'') = Inr (\<lambda>seconds. sel)" for sel
    by (simp add: rolling_cluster_def)
  have read: "Get (AppsV1_Deployments (rolling_cluster 3 sel))
      (Calls initial_state @ [WatchCall Deployments ''default'' (''metadata.name='' @ ''web'')])
      ''default'' ''web'' = Inr (deployment_doc ''web'' ''default'' ''41'' 3)" for sel
    by (simp add: rolling_cluster_def present_client_def)
  have nonzero: "UnavailableReplicas (deployment_doc ''web'' ''default'' ''41'' 3) \<noteq> 0"
    by (simp add: deployment_doc_def)
  have good: "\<forall>c \<in> set ?good. carries_deployment c" "TimerC \<in> set ?good"
    by (simp_all add: carries_deployment_def deployment_event_def)
  have bad: "?bad = map ResultChan [deployment_event 1] @ ResultChan closed_channel_event # []"
    "\<forall>e \<in> set [deployment_event 1]. reports_unavailable e"
    "\<not> carries_deployment (ResultChan closed_channel_event)"
    by (simp_all add: carries_deployment_def reports_unavailable_def deployment_event_def
        closed_channel_event_def deployment_doc_def)
  show ?thesis
    using good bad
      unchecked_assertion_panics [OF opened [of ?good] read [of ?good] nonzero,
        of 120 "[]" closed_channel_event "[]"]
      unchecked_assertion_panics [OF opened [of ?bad] read [of ?bad] nonzero,
        of 120 "[deployment_event 1]" closed_channel_event "[]"]
    by simp
qed

section \<open>The run over the documents of a template\<close>

lemma Exec_loop_append:
  "Exec_loop env p cs before s = (Return None, s1) \<Longrightarrow>
     Exec_loop env p cs (before @ rest) s = Exec_loop env p cs rest s1"
proof (induction before arbitrary: s)
  case Nil
  then show ?case by simp
next
  case (Cons part before)
  then show ?case
    by (auto simp: Let_def split: if_splits prod.splits outcome.splits option.splits)
qed


lemma Exec_loop_single:
  "TrimSpace env part \<noteq> [] \<Longrightarrow>
     snd (Exec_loop env p cs [part] s) = snd (handleYamlConfig env p (TrimSpace env part) cs s)"
  by (simp add: Let_def split: prod.splits outcome.splits option.splits)

lemma example_split:
  "Split ''configmap one --- service two --- configmap three'' ''---''
     = [''configmap one ''] @ '' service two '' # ['' configmap three'']"
  by (simp add: Split_def)

lemma example_trim:
  "trim_ascii ''configmap one '' = ''configmap one''"
  "trim_ascii '' service two '' = ''service two''"
  "trim_ascii '' configmap three'' = ''configmap three''"
  by (simp_all add: trim_ascii_def is_space_def)

lemma example_decode:
  "toy_decode ''configmap one'' = Inr (ConfigMap (doc ''one'' ''a'' []))"
  "toy_decode ''service two'' = Inr (Service (doc ''two'' ''b'' []))"
  "toy_decode ''configmap three'' = Inr (ConfigMap (doc ''three'' ''c'' []))"
  by (simp_all add: toy_decode_def)









text \<open>
  The claim that the namespace of the first document becomes the namespace of the
  documents after it fails: without an override, three documents declaring the namespaces
  a, b and c are reconciled in a, in b and in c.
\<close>

theorem namespace_leak_counterexample:
  "Namespace (KubeConfig (example_plugin [])) = []
   \<and> Exec (example_environment empty_cluster) (example_plugin []) initial_state
     = (Return None,
        \<lparr>Calls = [GetCall ConfigMaps ''a'' ''one'',
                  CreateCall ConfigMaps ''a'' (ConfigMap (doc ''one'' ''a'' [])),
                  GetCall Services ''b'' ''two'',
                  CreateCall Services ''b'' (Service (doc ''two'' ''b'' [])),
                  GetCall ConfigMaps ''c'' ''three'',
                  CreateCall ConfigMaps ''c'' (ConfigMap (doc ''three'' ''c'' []))],
         OpenWatches = 0, EventsReceived = 0\<rparr>)"
  by (simp add: Exec_def example_split [simplified] example_trim example_decode
      handleYamlConfig_def resolveNamespace_def reconcile_defs record_call_def Let_def
      fixture_defs example_plugin_def example_environment_def StatusNotFound_def)

lemma issued_in_iff:
  "issued_in ns s s' \<longleftrightarrow>
     (\<exists>issued. Calls s' = Calls s @ issued \<and> (\<forall>c \<in> set issued. call_namespace c = Some ns))"
proof
  assume "issued_in ns s s'"
  then have "Calls s' = Calls s @ drop (length (Calls s)) (Calls s')"
    and "\<forall>c \<in> set (drop (length (Calls s)) (Calls s')). call_namespace c = Some ns"
    by (simp_all add: issued_in_def list_all_iff)
       (metis append_take_drop_id)
  then show "\<exists>issued. Calls s' = Calls s @ issued
      \<and> (\<forall>c \<in> set issued. call_namespace c = Some ns)"
    by blast
next
  assume "\<exists>issued. Calls s' = Calls s @ issued
      \<and> (\<forall>c \<in> set issued. call_namespace c = Some ns)"
  then show "issued_in ns s s'"
    by (auto simp: issued_in_def list_all_iff)
qed

lemma issued_in_trans: "issued_in ns s s1 \<Longrightarrow> issued_in ns s1 s2 \<Longrightarrow> issued_in ns s s2"
  by (auto simp: issued_in_iff)

lemma issued_in_reconcilers:
  "issued_in ns s (snd (CreateOrUpdateDeployment cs ns d s))"
  "issued_in ns s (snd (ApplyConfigMap cs ns m s))"
  "issued_in ns s (snd (ApplyService cs ns m s))"
  "issued_in ns s (snd (ApplyIngress cs ns m s))"
  "issued_in ns s (snd (ApplyCronJob cs ns m s))"
  by (auto simp: issued_in_def reconcile_defs record_call_def Let_def split: sum.splits)

lemma issued_in_watcher:
  "issued_in ns s (snd (waitUntilDeploymentSettled cs ns name t s))"
  using settle_loop_frame
  by (auto simp: issued_in_def waitUntilDeploymentSettled_def record_call_def Let_def
      split: sum.splits)

lemma issued_in_handleYamlConfig:
  assumes "Namespace (KubeConfig p) = []"
    and "Decode env y = Inr obj"
    and "declared_namespace obj = Some ns"
  shows "issued_in ns s (snd (handleYamlConfig env p y cs s))"
proof (cases obj)
  case (Deployment d)
  have ns: "MetaNamespace (ObjectMeta d) = ns"
    using assms(3) Deployment by simp
  have step1: "issued_in ns s (snd (CreateOrUpdateDeployment cs ns d s))"
    by (rule issued_in_reconcilers)
  show ?thesis
  proof (cases "CreateOrUpdateDeployment cs ns d s")
    case (Pair r s1)
    show ?thesis
    proof (cases r)
      case (Some err)
      then show ?thesis
        using assms(1,2) Deployment ns Pair step1
        by (simp add: handleYamlConfig_def resolveNamespace_def)
    next
      case None
      have step2: "issued_in ns s1 (snd (waitUntilDeploymentSettled cs ns
          (MetaName (ObjectMeta d)) 120 s1))"
        by (rule issued_in_watcher)
      have both: "issued_in ns s (snd (waitUntilDeploymentSettled cs ns
          (MetaName (ObjectMeta d)) 120 s1))"
        using step1 step2 Pair by (auto intro: issued_in_trans)
      show ?thesis
        using assms(1,2) Deployment ns Pair None both
        by (auto simp: handleYamlConfig_def resolveNamespace_def
            split: prod.splits outcome.splits)
    qed
  qed
next
  case (ConfigMap m)
  then show ?thesis
    using assms issued_in_reconcilers(2) [of ns s cs m]
    by (auto simp: handleYamlConfig_def resolveNamespace_def split: prod.splits)
next
  case (Service m)
  then show ?thesis
    using assms issued_in_reconcilers(3) [of ns s cs m]
    by (auto simp: handleYamlConfig_def resolveNamespace_def split: prod.splits)
next
  case (Ingress m)
  then show ?thesis
    using assms issued_in_reconcilers(4) [of ns s cs m]
    by (auto simp: handleYamlConfig_def resolveNamespace_def split: prod.splits)
next
  case (CronJob m)
  then show ?thesis
    using assms issued_in_reconcilers(5) [of ns s cs m]
    by (auto simp: handleYamlConfig_def resolveNamespace_def split: prod.splits)
next
  case (OtherObject ty)
  then show ?thesis using assms(3) by simp
next
  case NilObject
  then show ?thesis using assms(3) by simp
qed

text \<open>
  C9, amended. When the caller gave no namespace override, the fallback assigns the
  namespace the document declares to the copy of the plugin that \<open>handleYamlConfig\<close>
  works on, so every request issued for a document of a supported kind goes to the
  namespace that this document declares, whatever documents of the same run were handled
  before it.
\<close>

theorem each_document_uses_its_own_namespace:
  assumes "Namespace (KubeConfig p) = []"
    and "Exec_loop env p cs before s = (Return None, s1)"
    and "TrimSpace env part \<noteq> []"
    and "Decode env (TrimSpace env part) = Inr obj"
    and "declared_namespace obj = Some ns"
  shows "issued_in ns s1 (snd (Exec_loop env p cs (before @ [part]) s))"
proof -
  have "Exec_loop env p cs (before @ [part]) s = Exec_loop env p cs [part] s1"
    using assms(2) by (rule Exec_loop_append)
  then have "snd (Exec_loop env p cs (before @ [part]) s)
      = snd (handleYamlConfig env p (TrimSpace env part) cs s1)"
    using Exec_loop_single [OF assms(3)] by simp
  then show ?thesis
    using issued_in_handleYamlConfig [OF assms(1) assms(4) assms(5)] by simp
qed

theorem each_document_uses_its_own_namespace_witness:
  "Namespace (KubeConfig (example_plugin [])) = []
   \<and> declared_namespace (Service (doc ''two'' ''b'' [])) = Some ''b''
   \<and> issued_in ''b''
        \<lparr>Calls = [GetCall ConfigMaps ''a'' ''one'',
                  CreateCall ConfigMaps ''a'' (ConfigMap (doc ''one'' ''a'' []))],
         OpenWatches = 0, EventsReceived = 0\<rparr>
        (snd (Exec_loop (example_environment empty_cluster) (example_plugin []) empty_cluster
           ([''configmap one ''] @ ['' service two '']) initial_state))
   \<and> Calls (snd (Exec_loop (example_environment empty_cluster) (example_plugin [])
          empty_cluster ([''configmap one ''] @ ['' service two '']) initial_state))
       = [GetCall ConfigMaps ''a'' ''one'',
          CreateCall ConfigMaps ''a'' (ConfigMap (doc ''one'' ''a'' [])),
          GetCall Services ''b'' ''two'',
          CreateCall Services ''b'' (Service (doc ''two'' ''b'' []))]"
proof -
  let ?env = "example_environment empty_cluster"
  let ?p = "example_plugin []"
  let ?s1 = "\<lparr>Calls = [GetCall ConfigMaps ''a'' ''one'',
                  CreateCall ConfigMaps ''a'' (ConfigMap (doc ''one'' ''a'' []))],
         OpenWatches = 0, EventsReceived = 0\<rparr>"
  have trim: "TrimSpace (example_environment c) = trim_ascii"
    and decode: "Decode (example_environment c) = toy_decode" for c
    by (simp_all add: example_environment_def)
  have no_override: "Namespace (KubeConfig ?p) = []"
    by (simp add: example_plugin_def)
  have first: "Exec_loop ?env ?p empty_cluster [''configmap one ''] initial_state
      = (Return None, ?s1)"
    by (simp add: trim decode example_trim example_decode handleYamlConfig_def
        resolveNamespace_def reconcile_defs record_call_def Let_def fixture_defs
        example_plugin_def StatusNotFound_def)
  have nonblank: "TrimSpace ?env '' service two '' \<noteq> []"
    by (simp add: trim example_trim)
  have decoded: "Decode ?env (TrimSpace ?env '' service two '')
      = Inr (Service (doc ''two'' ''b'' []))"
    by (simp add: trim decode example_trim example_decode)
  have declared: "declared_namespace (Service (doc ''two'' ''b'' [])) = Some ''b''"
    by (simp add: doc_def)
  have log: "Calls (snd (Exec_loop ?env ?p empty_cluster
          ([''configmap one ''] @ ['' service two '']) initial_state))
       = [GetCall ConfigMaps ''a'' ''one'',
          CreateCall ConfigMaps ''a'' (ConfigMap (doc ''one'' ''a'' [])),
          GetCall Services ''b'' ''two'',
          CreateCall Services ''b'' (Service (doc ''two'' ''b'' []))]"
    by (simp add: trim decode example_trim example_decode handleYamlConfig_def
        resolveNamespace_def reconcile_defs record_call_def Let_def fixture_defs
        example_plugin_def StatusNotFound_def)
  show ?thesis
    using no_override declared log
      each_document_uses_its_own_namespace [OF no_override first nonblank decoded declared]
    by simp
qed

end
